theory Spec2Isabelle
  imports Main "HOL-Library.Word" "HOL-Library.Multiset" "HOL-Library.Product_Lexorder"
    "HOL-Library.AList" "HOL-Library.Sublist"
begin

section \<open>Errors\<close>

text \<open>
  Go errors as values. \<open>EOF\<close> is \<open>io.EOF\<close>, \<open>ErrUnexpectedEOF\<close> is
  \<open>io.ErrUnexpectedEOF\<close>, \<open>Failure n\<close> stands for any other root error (an I/O
  failure, numbered to tell failures apart), and \<open>Wrapped msg e\<close> is
  \<open>fmt.Errorf(msg + ": %w", e)\<close>.
\<close>

datatype error = EOF | ErrUnexpectedEOF | Failure nat | Wrapped string error

text \<open>\<open>errors.Is(e, io.EOF)\<close>: walks the chain of wrapped errors.\<close>

fun errors_Is_EOF :: "error \<Rightarrow> bool" where
  "errors_Is_EOF EOF = True"
| "errors_Is_EOF ErrUnexpectedEOF = False"
| "errors_Is_EOF (Failure n) = False"
| "errors_Is_EOF (Wrapped msg e) = errors_Is_EOF e"

text \<open>A call that may end in \<open>logger.Panicf\<close> (or a nil dereference) returns \<open>Inl\<close> of:\<close>

datatype panic = Panic string

section \<open>banyand/fadvis/helper.go: the threshold registry\<close>

text \<open>
  The process-wide state of the package: the atomic \<open>LargeFileThreshold\<close> (an int64; it is
  only stored, loaded and compared, never computed with, so \<open>int\<close> models it exactly), the
  sizes \<open>os.Stat\<close> reports (no entry: \<open>os.Stat\<close> returns an error), and the paths
  \<open>fadvis.Apply\<close> has been called with, oldest first.
\<close>

record fadvis_state =
  LargeFileThreshold :: int
  stat_size :: "string \<rightharpoonup> int"
  applied :: "string list"

text \<open>\<open>func init()\<close>: the default of 64 MiB.\<close>

definition fadvis_init :: "(string \<rightharpoonup> int) \<Rightarrow> fadvis_state" where
  "fadvis_init st = \<lparr>LargeFileThreshold = 64 * 1024 * 1024, stat_size = st, applied = []\<rparr>"

definition SetThreshold :: "int \<Rightarrow> fadvis_state \<Rightarrow> fadvis_state" where
  "SetThreshold threshold s =
     (if threshold > 0 then s\<lparr>LargeFileThreshold := threshold\<rparr> else s)"

definition GetThreshold :: "fadvis_state \<Rightarrow> int" where
  "GetThreshold s = LargeFileThreshold s"

text \<open>
  \<open>ApplyIfLarge\<close>: the result of \<open>fadvis.Apply\<close> is only logged, so the model records the
  call and nothing else.
\<close>

definition ApplyIfLarge :: "string \<Rightarrow> fadvis_state \<Rightarrow> fadvis_state" where
  "ApplyIfLarge filePath s =
     (case stat_size s filePath of
        None \<Rightarrow> s
      | Some sz \<Rightarrow>
          (let threshold = LargeFileThreshold s
           in if sz > threshold then s\<lparr>applied := applied s @ [filePath]\<rparr> else s))"

section \<open>api/common: ChunkIDs.HashIntersect\<close>

type_synonym ChunkID = "64 word"

text \<open>
  The two loops of \<open>HashIntersect\<close>: the first fills the hash set from the receiver, the
  second appends every item of \<open>other\<close> found in it.
\<close>

definition HashIntersect :: "ChunkID list \<Rightarrow> ChunkID list \<Rightarrow> ChunkID list" where
  "HashIntersect c other =
     (if length c = 0 \<or> length other = 0 then []
      else
        let hash = fold (\<lambda>item h. h(item \<mapsto> ())) c Map.empty
        in fold (\<lambda>item intersection.
                   if hash item \<noteq> None then intersection @ [item] else intersection)
             other [])"

section \<open>banyand/measure/block_reader.go: seqReader.mustReadFull\<close>

text \<open>
  The sequential stream \<open>sr.sr\<close> under the reader: the bytes it has not delivered yet,
  and what it reports once they are used up (\<open>None\<close>: a clean \<open>io.EOF\<close>; \<open>Some e\<close>:
  the failure \<open>e\<close>).
\<close>

record seq_stream =
  remaining :: "8 word list"
  fault :: "error option"

record seqReader =
  sr :: seq_stream
  bytesRead :: "64 word"

text \<open>
  \<open>io.ReadFull(r, buf)\<close> of the Go standard library, for a buffer of \<open>n\<close> bytes: the
  count of bytes copied, the error, the bytes copied and the stream after the call.
  As documented there: the error is \<open>EOF\<close> only if no bytes were read, an \<open>EOF\<close> after
  some but not all bytes is \<open>ErrUnexpectedEOF\<close>, and a buffer of length 0 reads nothing
  and succeeds.
\<close>

definition io_ReadFull ::
    "seq_stream \<Rightarrow> nat \<Rightarrow> nat \<times> error option \<times> 8 word list \<times> seq_stream" where
  "io_ReadFull s n =
     (if n = 0 then (0, None, [], s)
      else if n \<le> length (remaining s)
        then (n, None, take n (remaining s), s\<lparr>remaining := drop n (remaining s)\<rparr>)
      else if remaining s = []
        then (0, Some (case fault s of None \<Rightarrow> EOF | Some e \<Rightarrow> e), [], s)
      else (length (remaining s),
            Some (case fault s of None \<Rightarrow> ErrUnexpectedEOF | Some EOF \<Rightarrow> ErrUnexpectedEOF
                  | Some e \<Rightarrow> e),
            remaining s, s\<lparr>remaining := []\<rparr>))"

text \<open>
  \<open>mustReadFull(data)\<close>: the reader and the buffer \<open>data\<close> after the call, or the panic.
  The bytes read overwrite the front of \<open>data\<close>.
\<close>

definition mustReadFull ::
    "seqReader \<Rightarrow> 8 word list \<Rightarrow> panic + (seqReader \<times> 8 word list)" where
  "mustReadFull r data =
     (case io_ReadFull (sr r) (length data) of
        (n, err, bs, s') \<Rightarrow>
          (let r' = r\<lparr>sr := s'\<rparr>; data' = bs @ drop (length bs) data
           in case err of
                Some e \<Rightarrow>
                  if errors_Is_EOF e then Inr (r', data')
                  else Inl (Panic ''cannot read data'')
              | None \<Rightarrow>
                  if n \<noteq> length data then Inl (Panic ''cannot read full data'')
                  else Inr (r'\<lparr>bytesRead := bytesRead r' + of_nat n\<rparr>, data')))"

section \<open>Paths and the file system\<close>

type_synonym bytes = "8 word list"

text \<open>
  \<open>filepath.Base\<close> of the Go standard library (Unix): the empty path gives \<open>.\<close>, trailing
  separators are dropped, the last element is what follows the last separator, and a path
  of separators only gives one separator.
\<close>

definition filepath_Base :: "string \<Rightarrow> string" where
  "filepath_Base path =
     (if path = [] then ''.''
      else
        let stripped = dropWhile (\<lambda>c. c = CHR ''/'') (rev path);
            elem = rev (takeWhile (\<lambda>c. c \<noteq> CHR ''/'') stripped)
        in if elem = [] then ''/'' else elem)"

text \<open>
  \<open>filepath.Ext\<close>: scanning from the end up to the last separator, the suffix that starts
  at the first dot met; empty when there is none. \<open>ext_scan\<close> walks the reversed name and
  keeps the characters passed.
\<close>

fun ext_scan :: "string \<Rightarrow> string \<Rightarrow> string" where
  "ext_scan [] passed = []"
| "ext_scan (c # cs) passed =
     (if c = CHR ''/'' then []
      else if c = CHR ''.'' then c # passed
      else ext_scan cs (c # passed))"

definition filepath_Ext :: "string \<Rightarrow> string" where
  "filepath_Ext path = ext_scan (rev path) []"

text \<open>
  \<open>filepath.Clean\<close> (and \<open>path.Clean\<close>, the same on Unix), by the rules the Go standard
  library documents: multiple separators become one, every \<open>.\<close> element goes, every inner
  \<open>..\<close> element goes together with the element before it, \<open>..\<close> elements that begin a
  rooted path go, the result ends in a separator only if it is the root, and the empty
  result is \<open>.\<close>. \<open>split_sep\<close> cuts a path at its separators, \<open>clean_elem\<close> handles one
  element given the elements kept so far, and \<open>join_sep\<close> puts separators between the
  elements kept.
\<close>

fun split_sep :: "string \<Rightarrow> string list" where
  "split_sep [] = [[]]"
| "split_sep (c # cs) =
     (if c = CHR ''/'' then [] # split_sep cs
      else (case split_sep cs of [] \<Rightarrow> [[c]] | x # xs \<Rightarrow> (c # x) # xs))"

fun join_sep :: "string list \<Rightarrow> string" where
  "join_sep [] = []"
| "join_sep [x] = x"
| "join_sep (x # y # ys) = x @ CHR ''/'' # join_sep (y # ys)"

definition clean_elem :: "bool \<Rightarrow> string \<Rightarrow> string list \<Rightarrow> string list" where
  "clean_elem rooted e kept =
     (if e = [] \<or> e = ''.'' then kept
      else if e = ''..'' then
        (if kept \<noteq> [] \<and> last kept \<noteq> ''..'' then butlast kept
         else if rooted then kept
         else kept @ [e])
      else kept @ [e])"

definition filepath_Clean :: "string \<Rightarrow> string" where
  "filepath_Clean path =
     (let rooted = (path \<noteq> [] \<and> hd path = CHR ''/'');
          kept = fold (clean_elem rooted) (split_sep path) [];
          out = (if rooted then ''/'' else []) @ join_sep kept
      in if out = [] then ''.'' else out)"

text \<open>
  \<open>filepath.Join\<close> and \<open>path.Join\<close> of two elements: empty elements are ignored, the
  others are joined by a separator and the result is cleaned; when both are empty the
  result is the empty string.
\<close>

definition filepath_Join :: "string \<Rightarrow> string \<Rightarrow> string" where
  "filepath_Join dir elem =
     (if dir \<noteq> [] then filepath_Clean (dir @ CHR ''/'' # elem)
      else if elem \<noteq> [] then filepath_Clean elem
      else [])"

text \<open>
  \<open>removeExt\<close> (the slice expression panics when \<open>ext\<close> is longer than the name),
  \<open>partName\<close> (\<open>fmt.Sprintf("%016x", epoch)\<close>) and \<open>partPath\<close>.
\<close>

definition removeExt :: "string \<Rightarrow> string \<Rightarrow> panic + string" where
  "removeExt nameWithExt ext =
     (if length ext \<le> length nameWithExt
      then Inr (take (length nameWithExt - length ext) nameWithExt)
      else Inl (Panic ''slice bounds out of range''))"

definition hexdigit :: "nat \<Rightarrow> char" where
  "hexdigit n = ''0123456789abcdef'' ! n"

definition partName :: "64 word \<Rightarrow> string" where
  "partName epoch = map (\<lambda>i. hexdigit (unat (and (drop_bit (4 * i) epoch) 15))) (rev [0..<16])"

definition partPath :: "string \<Rightarrow> 64 word \<Rightarrow> string" where
  "partPath root epoch = filepath_Join root (partName epoch)"

text \<open>
  Modelled from the spec: SegmentMetadata, "a monotonically assigned numeric ID, block
  count, row/element count, minimum and maximum timestamp covered" (the declaration of
  \<open>partMetadata\<close> is not among the sources).
\<close>

record partMetadata =
  ID :: "64 word"
  BlocksCount :: "64 word"
  TotalCount :: "64 word"
  MinTimestamp :: int
  MaxTimestamp :: int

text \<open>
  Modelled from the spec: the file system collaborator, "directory create/list/remove,
  durable-sync-of-path, and sequential/random file open/read/write". A node is a
  directory, a file of bytes, or the metadata record (whose JSON text is not modelled:
  the record is "persisted alongside the segment and re-read verbatim"). The nodes are
  kept by their full path, in the order of their creation; \<open>synced\<close> lists the paths
  given to \<open>SyncPath\<close>, oldest first.
\<close>

datatype fs_node = Dir | File bytes | MetadataFile partMetadata

record fsys =
  nodes :: "(string \<times> fs_node) list"
  synced :: "string list"

definition fs_lookup :: "fsys \<Rightarrow> string \<Rightarrow> fs_node option" where
  "fs_lookup fs name = map_of (nodes fs) name"

text \<open>Modelled from the spec: creating a directory that must not exist yet.\<close>

definition MkdirPanicIfExist :: "fsys \<Rightarrow> string \<Rightarrow> panic + fsys" where
  "MkdirPanicIfExist fs path =
     (if fs_lookup fs path \<noteq> None then Inl (Panic ''directory is exist'')
      else Inr (fs\<lparr>nodes := nodes fs @ [(path, Dir)]\<rparr>))"

text \<open>
  Modelled from the spec: \<open>fs.MustFlush\<close> writes a whole file, creating it or replacing
  its content (a failure of the operating system, which would be a panic, is not
  modelled).
\<close>

definition fs_MustFlush :: "fsys \<Rightarrow> bytes \<Rightarrow> string \<Rightarrow> fsys" where
  "fs_MustFlush fs buffer name = fs\<lparr>nodes := AList.update name (File buffer) (nodes fs)\<rparr>"

definition SyncPath :: "fsys \<Rightarrow> string \<Rightarrow> fsys" where
  "SyncPath fs path = fs\<lparr>synced := synced fs @ [path]\<rparr>"

text \<open>
  Modelled from the spec: \<open>partMetadata.mustWriteMetadata\<close> and
  \<open>partMetadata.mustReadMetadata\<close>: the record goes to \<open>metadata.json\<close> in the part's
  directory and is read back from there, "fatal if unreadable or malformed".
\<close>

definition metadataFilename :: string where "metadataFilename = ''metadata.json''"
definition primaryFilename :: string where "primaryFilename = ''primary.bin''"
definition metaFilename :: string where "metaFilename = ''meta.bin''"
definition timestampsFilename :: string where "timestampsFilename = ''timestamps.bin''"
definition elementIndexFilename :: string where "elementIndexFilename = ''idx''"
definition tagFamiliesMetadataFilenameExt :: string where "tagFamiliesMetadataFilenameExt = ''.tfm''"
definition tagFamiliesFilenameExt :: string where "tagFamiliesFilenameExt = ''.tf''"

definition mustWriteMetadata :: "partMetadata \<Rightarrow> fsys \<Rightarrow> string \<Rightarrow> fsys" where
  "mustWriteMetadata pm fs path =
     fs\<lparr>nodes := AList.update (filepath_Join path metadataFilename) (MetadataFile pm) (nodes fs)\<rparr>"

definition mustReadMetadata :: "fsys \<Rightarrow> string \<Rightarrow> panic + partMetadata" where
  "mustReadMetadata fs partDir =
     (case fs_lookup fs (filepath_Join partDir metadataFilename) of
        Some (MetadataFile pm) \<Rightarrow> Inr pm
      | Some (File b) \<Rightarrow> Inl (Panic ''cannot parse metadata.json'')
      | _ \<Rightarrow> Inl (Panic ''cannot read metadata.json''))"

text \<open>
  An \<open>fs.Reader\<close>: the buffer of a memory part (\<open>NilBuffer\<close>: a nil pointer to one),
  or a handle on the file of that name, whose bytes are read from the file system when
  asked for.
\<close>

datatype reader = BufferReader bytes | NilBuffer | FileReader string

definition reader_bytes :: "fsys \<Rightarrow> reader \<Rightarrow> bytes option" where
  "reader_bytes fs r =
     (case r of
        BufferReader b \<Rightarrow> Some b
      | NilBuffer \<Rightarrow> None
      | FileReader name \<Rightarrow> (case fs_lookup fs name of Some (File b) \<Rightarrow> Some b | _ \<Rightarrow> None))"

text \<open>Modelled from the spec: \<open>OpenFile\<close> fails on anything but an existing file.\<close>

definition OpenFile :: "fsys \<Rightarrow> string \<Rightarrow> error + reader" where
  "OpenFile fs name =
     (case fs_lookup fs name of
        Some (File b) \<Rightarrow> Inr (FileReader name)
      | Some (MetadataFile pm) \<Rightarrow> Inr (FileReader name)
      | _ \<Rightarrow> Inl (Failure 2))"

text \<open>
  Modelled from the spec: \<open>ReadDir\<close> lists the entries that lie directly in the
  directory, each with its name and whether it is a directory.
\<close>

definition ReadDir :: "fsys \<Rightarrow> string \<Rightarrow> (string \<times> bool) list" where
  "ReadDir fs path =
     map (\<lambda>(q, node). (drop (length path + 1) q, node = Dir))
       (filter (\<lambda>(q, node). prefix (path @ ''/'') q \<and> length path + 1 < length q
                  \<and> CHR ''/'' \<notin> set (drop (length path + 1) q))
          (nodes fs))"

section \<open>banyand/stream/part.go: memory parts, flushing and opening\<close>

text \<open>
  Modelled from the spec: a BlockDescriptor, "the series identifier the block belongs
  to, the block's timestamp range, its element count, and byte offsets/lengths into the
  column data streams".
\<close>

record primaryBlockMetadata =
  pbm_seriesID :: "64 word"
  pbm_minTimestamp :: int
  pbm_maxTimestamp :: int
  pbm_offset :: "64 word"
  pbm_size :: "64 word"

text \<open>
  \<open>memPart\<close>. The two Go maps are association lists with distinct keys; the order of
  the list stands for the order in which Go happens to range over the map.
\<close>

record memPart =
  mp_tagFamilyMetadata :: "(string \<times> bytes) list"
  mp_tagFamilies :: "(string \<times> bytes) list"
  mp_meta :: bytes
  mp_primary :: bytes
  mp_timestamps :: bytes
  mp_partMetadata :: partMetadata

text \<open>\<open>part\<close>. \<open>p_fileSystem\<close> says whether the field \<open>fileSystem\<close> is set (not nil).\<close>

record part =
  p_primary :: reader
  p_timestamps :: reader
  p_fileSystem :: bool
  p_tagFamilyMetadata :: "string \<rightharpoonup> reader"
  p_tagFamilies :: "string \<rightharpoonup> reader"
  p_path :: string
  p_primaryBlockMetadata :: "primaryBlockMetadata list"
  p_partMetadata :: partMetadata

text \<open>
  \<open>mustReadPrimaryBlockMetadata\<close> is not among the sources and the spec leaves the byte
  layout open, so the decoder of the block-descriptor array is a parameter
  \<open>unmarshal\<close> of the functions that call it: it panics or gives the array.
\<close>

type_synonym pbm_decoder = "bytes \<Rightarrow> panic + primaryBlockMetadata list"

definition openMemPart :: "pbm_decoder \<Rightarrow> memPart \<Rightarrow> panic + part" where
  "openMemPart unmarshal mp =
     (case unmarshal (mp_meta mp) of
        Inl e \<Rightarrow> Inl e
      | Inr pbms \<Rightarrow>
          Inr \<lparr>p_primary = BufferReader (mp_primary mp),
               p_timestamps = BufferReader (mp_timestamps mp),
               p_fileSystem = False,
               p_tagFamilyMetadata =
                 (\<lambda>name. if name \<in> fst ` set (mp_tagFamilies mp)
                    then (case map_of (mp_tagFamilyMetadata mp) name of
                            None \<Rightarrow> Some NilBuffer | Some b \<Rightarrow> Some (BufferReader b))
                    else None),
               p_tagFamilies = map_option BufferReader \<circ> map_of (mp_tagFamilies mp),
               p_path = [],
               p_primaryBlockMetadata = pbms,
               p_partMetadata = mp_partMetadata mp\<rparr>)"

text \<open>
  \<open>memPart.mustFlush\<close>. It works on the file system and on the state of the threshold
  registry (the calls of \<open>fadvis.ApplyIfLarge\<close>). Permissions are left out.
\<close>

definition mustFlush ::
    "fsys \<Rightarrow> string \<Rightarrow> memPart \<Rightarrow> fadvis_state \<Rightarrow> panic + (fsys \<times> fadvis_state)" where
  "mustFlush fileSystem path mp fa =
     (case MkdirPanicIfExist fileSystem path of
        Inl e \<Rightarrow> Inl e
      | Inr fs0 \<Rightarrow>
          if filepath_Base path = elementIndexFilename then Inr (fs0, fa)
          else
            let fs1 = fs_MustFlush fs0 (mp_meta mp) (filepath_Join path metaFilename);
                fs2 = fs_MustFlush fs1 (mp_primary mp) (filepath_Join path primaryFilename);
                fs3 = fs_MustFlush fs2 (mp_timestamps mp) (filepath_Join path timestampsFilename);
                fs4 = fold (\<lambda>(name, tf) f.
                              fs_MustFlush f tf (filepath_Join path (name @ tagFamiliesFilenameExt)))
                        (mp_tagFamilies mp) fs3;
                fs5 = fold (\<lambda>(name, tfh) f.
                              fs_MustFlush f tfh
                                (filepath_Join path (name @ tagFamiliesMetadataFilenameExt)))
                        (mp_tagFamilyMetadata mp) fs4;
                fs6 = mustWriteMetadata (mp_partMetadata mp) fs5 path;
                fs7 = SyncPath fs6 path;
                fa1 = ApplyIfLarge (filepath_Join path primaryFilename) fa;
                fa2 = ApplyIfLarge (filepath_Join path timestampsFilename) fa1;
                fa3 = fold (\<lambda>(name, tf).
                              ApplyIfLarge (filepath_Join path (name @ tagFamiliesFilenameExt)))
                        (mp_tagFamilies mp) fa2
            in Inr (fs7, fa3))"

definition mustOpenReader :: "string \<Rightarrow> fsys \<Rightarrow> panic + reader" where
  "mustOpenReader name fileSystem =
     (case OpenFile fileSystem name of
        Inl err \<Rightarrow> Inl (Panic ''cannot open'')
      | Inr f \<Rightarrow> Inr f)"

text \<open>
  The body of the loop of \<open>mustOpenFilePart\<close> over the directory entries, for one entry
  \<open>(name, isDir)\<close>.
\<close>

definition open_entry :: "fsys \<Rightarrow> string \<Rightarrow> string \<times> bool \<Rightarrow> part \<Rightarrow> panic + part" where
  "open_entry fileSystem partDir e p =
     (if snd e then Inr p
      else
        case (if filepath_Ext (fst e) = tagFamiliesMetadataFilenameExt
              then (case removeExt (fst e) tagFamiliesMetadataFilenameExt of
                      Inl x \<Rightarrow> Inl x
                    | Inr name \<Rightarrow>
                   (case mustOpenReader (filepath_Join partDir (fst e)) fileSystem of
                      Inl x \<Rightarrow> Inl x
                    | Inr r \<Rightarrow>
                        Inr (p\<lparr>p_tagFamilyMetadata := (p_tagFamilyMetadata p)(name \<mapsto> r)\<rparr>)))
              else Inr p) of
          Inl x \<Rightarrow> Inl x
        | Inr p1 \<Rightarrow>
            if filepath_Ext (fst e) = tagFamiliesFilenameExt
            then (case removeExt (fst e) tagFamiliesFilenameExt of
                    Inl x \<Rightarrow> Inl x
                  | Inr name \<Rightarrow>
                 (case mustOpenReader (filepath_Join partDir (fst e)) fileSystem of
                    Inl x \<Rightarrow> Inl x
                  | Inr r \<Rightarrow> Inr (p1\<lparr>p_tagFamilies := (p_tagFamilies p1)(name \<mapsto> r)\<rparr>)))
            else Inr p1)"

fun open_entries :: "fsys \<Rightarrow> string \<Rightarrow> (string \<times> bool) list \<Rightarrow> part \<Rightarrow> panic + part" where
  "open_entries fileSystem partDir [] p = Inr p"
| "open_entries fileSystem partDir (e # ee) p =
     (case open_entry fileSystem partDir e p of
        Inl x \<Rightarrow> Inl x
      | Inr p' \<Rightarrow> open_entries fileSystem partDir ee p')"

definition mustOpenFilePart ::
    "pbm_decoder \<Rightarrow> 64 word \<Rightarrow> string \<Rightarrow> fsys \<Rightarrow> panic + part" where
  "mustOpenFilePart unmarshal partID root fileSystem =
     (let partDir = partPath root partID in
      case mustReadMetadata fileSystem partDir of
        Inl x \<Rightarrow> Inl x
      | Inr pm \<Rightarrow>
      (case mustOpenReader (filepath_Join partDir metaFilename) fileSystem of
        Inl x \<Rightarrow> Inl x
      | Inr pr \<Rightarrow>
      (case (case reader_bytes fileSystem pr of
               None \<Rightarrow> Inl (Panic ''cannot read meta.bin'')
             | Some b \<Rightarrow> unmarshal b) of
        Inl x \<Rightarrow> Inl x
      | Inr pbms \<Rightarrow>
      (case mustOpenReader (filepath_Join partDir primaryFilename) fileSystem of
        Inl x \<Rightarrow> Inl x
      | Inr prim \<Rightarrow>
      (case mustOpenReader (filepath_Join partDir timestampsFilename) fileSystem of
        Inl x \<Rightarrow> Inl x
      | Inr ts \<Rightarrow>
          open_entries fileSystem partDir (ReadDir fileSystem partDir)
            \<lparr>p_primary = prim, p_timestamps = ts, p_fileSystem = True,
               p_tagFamilyMetadata = Map.empty, p_tagFamilies = Map.empty,
               p_path = partDir, p_primaryBlockMetadata = pbms,
               p_partMetadata = pm\<lparr>ID := partID\<rparr>\<rparr>)))))"

section \<open>banyand/stream/part.go: partWrapper\<close>

text \<open>
  \<open>partWrapper\<close>: \<open>pw_ref\<close> is the int32 counter, on which \<open>atomic.AddInt32\<close> wraps around.
\<close>

record partWrapper =
  pw_mp :: "memPart option"
  pw_p :: "part option"
  pw_ref :: "32 word"
  pw_removable :: bool

text \<open>
  What a cleanup does to the world outside the wrapper, in the order it happens:
  \<open>releaseMemPart(mp)\<close>, \<open>p.close()\<close> (which closes every stream of the part), and the
  goroutine started to run \<open>MustRMAll\<close> on a path.
\<close>

datatype effect = ReleaseMemPart memPart | ClosePart part | ScheduleRMAll string

definition newPartWrapper :: "memPart option \<Rightarrow> part option \<Rightarrow> partWrapper" where
  "newPartWrapper mp p = \<lparr>pw_mp = mp, pw_p = p, pw_ref = 1, pw_removable = False\<rparr>"

definition incRef :: "partWrapper \<Rightarrow> partWrapper" where
  "incRef pw = pw\<lparr>pw_ref := pw_ref pw + 1\<rparr>"

text \<open>
  \<open>decRef\<close>, with the effects so far: the wrapper and the effects after the call, or the
  panic of \<open>pw.p.close()\<close> on a nil \<open>pw.p\<close>.
\<close>

definition decRef :: "partWrapper \<Rightarrow> effect list \<Rightarrow> panic + (partWrapper \<times> effect list)" where
  "decRef pw effects =
     (let n = pw_ref pw - 1; pw1 = pw\<lparr>pw_ref := n\<rparr>
      in if 0 < sint n then Inr (pw1, effects)
         else
           case pw_mp pw1 of
             Some m \<Rightarrow> Inr (pw1\<lparr>pw_mp := None, pw_p := None\<rparr>, effects @ [ReleaseMemPart m])
           | None \<Rightarrow>
               (case pw_p pw1 of
                  None \<Rightarrow> Inl (Panic ''nil pointer dereference'')
                | Some p \<Rightarrow>
                    Inr (pw1,
                         effects @ [ClosePart p]
                           @ (if pw_removable pw1 \<and> p_fileSystem p
                              then [ScheduleRMAll (p_path p)] else []))))"

datatype ref_call = IncRef | DecRef

fun run_calls ::
    "ref_call list \<Rightarrow> partWrapper \<times> effect list \<Rightarrow> panic + (partWrapper \<times> effect list)" where
  "run_calls [] st = Inr st"
| "run_calls (IncRef # cs) (pw, effects) = run_calls cs (incRef pw, effects)"
| "run_calls (DecRef # cs) (pw, effects) =
     (case decRef pw effects of Inl x \<Rightarrow> Inl x | Inr st \<Rightarrow> run_calls cs st)"

text \<open>
  A sequence of calls is balanced when every \<open>decRef\<close> in it releases a reference that an
  earlier \<open>incRef\<close> of the sequence acquired and none stays acquired at the end.
  \<open>balanced d cs\<close> says so for a sequence that starts with \<open>d\<close> references acquired;
  \<open>outstanding d cs\<close> is the largest number of acquired references held at any time.
\<close>

fun balanced :: "nat \<Rightarrow> ref_call list \<Rightarrow> bool" where
  "balanced d [] = (d = 0)"
| "balanced d (IncRef # cs) = balanced (Suc d) cs"
| "balanced d (DecRef # cs) = (0 < d \<and> balanced (d - 1) cs)"

fun outstanding :: "nat \<Rightarrow> ref_call list \<Rightarrow> nat" where
  "outstanding d [] = d"
| "outstanding d (IncRef # cs) = max d (outstanding (Suc d) cs)"
| "outstanding d (DecRef # cs) = max d (outstanding (d - 1) cs)"

section \<open>banyand/stream/part.go: memPart.mustInitFromElements\<close>

text \<open>
  Modelled from the spec: a batch of rows, "each carrying (series identifier, timestamp,
  element identifier, per-tag-family values)". The declaration of \<open>elements\<close> is not
  among the sources; the code reads it as four slices in step (\<open>seriesIDs\<close>,
  \<open>timestamps\<close>, \<open>elementIDs\<close>, \<open>tagFamilies\<close>), which the model keeps as one list of
  rows, so that a sub-slice \<open>[lo:hi]\<close> taken of each is one sub-list. A tag family has
  its name \<open>tag\<close> and its \<open>values\<close>; the type \<open>'tv\<close> of a tag value and its \<open>size()\<close>
  are not among the sources either, so the size is a parameter \<open>tv_size\<close> of the
  functions that need it.
\<close>

record 'tv tagValues =
  tvs_tag :: string
  tvs_values :: "'tv list"

record 'tv element =
  e_seriesID :: "64 word"
  e_timestamp :: int
  e_elementID :: "64 word"
  e_tagFamilies :: "'tv tagValues list"

type_synonym 'tv elements = "'tv element list"

text \<open>
  \<open>uncompressedElementSizeBytes(index, es)\<close>. The sum is a uint64 in the code and a
  natural number here: it cannot wrap, a batch of \<open>2^64\<close> bytes does not fit in memory.
\<close>

definition uncompressedElementSizeBytes :: "('tv \<Rightarrow> nat) \<Rightarrow> nat \<Rightarrow> 'tv elements \<Rightarrow> nat" where
  "uncompressedElementSizeBytes tv_size index es =
     fold (\<lambda>tf n. fold (\<lambda>v n. n + tv_size v) (tvs_values tf) (n + length (tvs_tag tf)))
       (e_tagFamilies (es ! index)) (8 + 8)"

text \<open>
  Modelled from the spec: \<open>sort.Sort(es)\<close> sorts the batch "by series identifier, then
  timestamp (stable tie-break by original order for equal keys)".
\<close>

definition sort_elements :: "'tv elements \<Rightarrow> 'tv elements" where
  "sort_elements es = sort_key (\<lambda>e. (e_seriesID e, e_timestamp e)) es"

text \<open>
  Modelled from the spec: the block writer; \<open>MustWriteElements(sid, ...)\<close> writes one
  block, "a BlockDescriptor and ... the block's column data", for the series \<open>sid\<close> and the
  rows passed. The writer is the list of the blocks written, oldest first.
\<close>

type_synonym 'tv blockWriter = "(64 word \<times> 'tv elements) list"

definition MustWriteElements :: "'tv blockWriter \<Rightarrow> 64 word \<Rightarrow> 'tv elements \<Rightarrow> 'tv blockWriter" where
  "MustWriteElements bsw sid rows = bsw @ [(sid, rows)]"

text \<open>The variables of the loop of \<open>mustInitFromElements\<close>.\<close>

record 'tv init_state =
  bsw :: "'tv blockWriter"
  sidPrev :: "64 word"
  uncompressedBlockSizeBytes :: nat
  indexPrev :: nat

text \<open>The sub-slice \<open>[lo:hi]\<close>, for \<open>lo \<le> hi \<le> len\<close>.\<close>

definition slice :: "'a list \<Rightarrow> nat \<Rightarrow> nat \<Rightarrow> 'a list" where
  "slice xs lo hi = take (hi - lo) (drop lo xs)"

text \<open>One run of the loop body, for the index \<open>i\<close>.\<close>

definition init_step ::
    "('tv \<Rightarrow> nat) \<Rightarrow> nat \<Rightarrow> 'tv elements \<Rightarrow> nat \<Rightarrow> 'tv init_state \<Rightarrow> 'tv init_state" where
  "init_step tv_size maxUncompressedBlockSize es i st =
     (let sid = e_seriesID (es ! i);
          st1 = (if sidPrev st = 0 then st\<lparr>sidPrev := sid\<rparr> else st);
          st2 = (if uncompressedBlockSizeBytes st1 \<ge> maxUncompressedBlockSize \<or> sid \<noteq> sidPrev st1
                 then st1\<lparr>bsw := MustWriteElements (bsw st1) (sidPrev st1) (slice es (indexPrev st1) i),
                        sidPrev := sid, indexPrev := i, uncompressedBlockSizeBytes := 0\<rparr>
                 else st1)
      in st2\<lparr>uncompressedBlockSizeBytes :=
               uncompressedBlockSizeBytes st2 + uncompressedElementSizeBytes tv_size i es\<rparr>)"

text \<open>The variables after the first \<open>n\<close> runs of the loop.\<close>

definition init_loop ::
    "('tv \<Rightarrow> nat) \<Rightarrow> nat \<Rightarrow> 'tv elements \<Rightarrow> nat \<Rightarrow> 'tv init_state" where
  "init_loop tv_size maxUncompressedBlockSize es n =
     fold (init_step tv_size maxUncompressedBlockSize es) [0..<n]
       \<lparr>bsw = [], sidPrev = 0, uncompressedBlockSizeBytes = 0, indexPrev = 0\<rparr>"

text \<open>
  \<open>mustInitFromElements\<close>, as far as the blocks go: the blocks the writer has been given
  when the function returns. \<open>maxUncompressedBlockSize\<close> is a constant whose declaration is
  not among the sources, so it is a parameter.
\<close>

definition mustInitFromElements ::
    "('tv \<Rightarrow> nat) \<Rightarrow> nat \<Rightarrow> 'tv elements \<Rightarrow> 'tv blockWriter" where
  "mustInitFromElements tv_size maxUncompressedBlockSize es0 =
     (if length es0 = 0 then []
      else
        let es = sort_elements es0;
            st = init_loop tv_size maxUncompressedBlockSize es (length es)
        in MustWriteElements (bsw st) (sidPrev st) (slice es (indexPrev st) (length es)))"

text \<open>The uncompressed size of a block: the sizes of its rows, added up.\<close>

definition block_size :: "('tv \<Rightarrow> nat) \<Rightarrow> 'tv elements \<Rightarrow> nat" where
  "block_size tv_size rows =
     sum_list (map (\<lambda>i. uncompressedElementSizeBytes tv_size i rows) [0..<length rows])"

section \<open>Properties of the threshold registry\<close>

text \<open>
  C8. \<open>SetThreshold v\<close> with \<open>v \<le> 0\<close> leaves the stored value unchanged, with \<open>v > 0\<close> it
  stores \<open>v\<close> so that \<open>GetThreshold\<close> returns it; and \<open>ApplyIfLarge\<close> on a file that
  \<open>os.Stat\<close> finds calls the hint utility, once and on that path, exactly when the size is
  strictly greater than the current threshold: at the threshold, or when \<open>os.Stat\<close> fails,
  nothing changes.
\<close>

theorem threshold_registry:
  "(v \<le> 0 \<longrightarrow> SetThreshold v s = s) \<and>
   (0 < v \<longrightarrow> GetThreshold (SetThreshold v s) = v) \<and>
   (stat_size s path = Some sz \<longrightarrow>
      (if GetThreshold s < sz
       then ApplyIfLarge path s = s\<lparr>applied := applied s @ [path]\<rparr>
       else ApplyIfLarge path s = s)) \<and>
   (stat_size s path = None \<longrightarrow> ApplyIfLarge path s = s)"
  by (simp add: SetThreshold_def GetThreshold_def ApplyIfLarge_def)

theorem threshold_registry_witness:
  "GetThreshold (SetThreshold 0 (fadvis_init [''f'' \<mapsto> 33554432, ''g'' \<mapsto> 33554433])) = 67108864 \<and>
   GetThreshold (SetThreshold (- 5) (fadvis_init [''f'' \<mapsto> 33554432, ''g'' \<mapsto> 33554433])) = 67108864 \<and>
   GetThreshold (SetThreshold 33554432 (fadvis_init [''f'' \<mapsto> 33554432, ''g'' \<mapsto> 33554433])) = 33554432 \<and>
   applied (ApplyIfLarge ''f'' (SetThreshold 33554432 (fadvis_init [''f'' \<mapsto> 33554432, ''g'' \<mapsto> 33554433]))) = [] \<and>
   applied (ApplyIfLarge ''g'' (SetThreshold 33554432 (fadvis_init [''f'' \<mapsto> 33554432, ''g'' \<mapsto> 33554433]))) = [''g'']"
proof -
  let ?s0 = "fadvis_init [''f'' \<mapsto> 33554432, ''g'' \<mapsto> 33554433]"
  let ?s1 = "?s0\<lparr>LargeFileThreshold := 33554432\<rparr>"
  have s1: "SetThreshold 33554432 ?s0 = ?s1"
    by (simp add: SetThreshold_def)
  have g0: "GetThreshold ?s0 = 67108864"
    by (simp add: GetThreshold_def fadvis_init_def)
  have st: "stat_size ?s1 ''f'' = Some 33554432" "stat_size ?s1 ''g'' = Some 33554433"
    by (simp_all add: fadvis_init_def)
  have a0: "applied ?s1 = []"
    by (simp add: fadvis_init_def)
  have t1: "GetThreshold (SetThreshold 33554432 ?s0) = 33554432"
    using threshold_registry [of 33554432 ?s0 "''f''" 0] by simp
  have t1': "GetThreshold ?s1 = 33554432"
    by (simp add: GetThreshold_def)
  have u: "SetThreshold 0 ?s0 = ?s0" "SetThreshold (- 5) ?s0 = ?s0"
    using threshold_registry [of 0 ?s0 "''f''" 0] threshold_registry [of "- 5" ?s0 "''f''" 0]
    by simp_all
  have f: "ApplyIfLarge ''f'' ?s1 = ?s1"
    using threshold_registry [of 1 ?s1 "''f''" 33554432] st t1' by simp
  have g: "ApplyIfLarge ''g'' ?s1 = ?s1\<lparr>applied := applied ?s1 @ [''g'']\<rparr>"
    using threshold_registry [of 1 ?s1 "''g''" 33554433] st t1' by simp
  show ?thesis
    unfolding u s1 f g using g0 t1' a0 by simp
qed

section \<open>Properties of HashIntersect\<close>

lemma hash_fold:
  "(fold (\<lambda>item h. h(item \<mapsto> ())) c m) x \<noteq> None \<longleftrightarrow> x \<in> set c \<or> m x \<noteq> None"
  by (induction c arbitrary: m) auto

lemma intersection_fold:
  "fold (\<lambda>item acc. if P item then acc @ [item] else acc) other acc = acc @ filter P other"
  by (induction other arbitrary: acc) auto

lemma HashIntersect_filter: "HashIntersect c other = filter (\<lambda>x. x \<in> set c) other"
proof (cases "c = [] \<or> other = []")
  case True
  then show ?thesis by (auto simp: HashIntersect_def)
next
  case False
  have "(\<lambda>item. (fold (\<lambda>item h. h(item \<mapsto> ())) c Map.empty) item \<noteq> None) = (\<lambda>x. x \<in> set c)"
    using hash_fold [of c Map.empty] by auto
  with False show ?thesis
    by (simp add: HashIntersect_def Let_def intersection_fold)
qed

text \<open>
  C9, as amended. \<open>HashIntersect\<close> keeps, in the order of its argument, every item of the
  argument that occurs in the receiver: the result is the argument filtered by membership in
  the receiver. So the result holds exactly the identifiers
  present in both inputs, the operation is commutative as far as the set of identifiers
  goes, and it is empty whenever either input is empty; but an identifier occurs in the
  result as many times as in the argument, so the result is free of duplicates when the
  argument is.
\<close>

theorem HashIntersect_spec:
  "HashIntersect a b = filter (\<lambda>x. x \<in> set a) b \<and>
   set (HashIntersect a b) = set a \<inter> set b \<and>
   set (HashIntersect a b) = set (HashIntersect b a) \<and>
   (a = [] \<or> b = [] \<longrightarrow> HashIntersect a b = []) \<and>
   (distinct b \<longrightarrow> distinct (HashIntersect a b)) \<and>
   count_list (HashIntersect a b) x = (if x \<in> set a then count_list b x else 0)"
proof -
  have "count_list (filter (\<lambda>x. x \<in> set a) b) x = (if x \<in> set a then count_list b x else 0)"
    by (induction b) auto
  then show ?thesis
    by (auto simp: HashIntersect_filter)
qed

theorem HashIntersect_spec_witness:
  "HashIntersect [3, 2, 1] [1, 3, 3, 2, 4] = [1, 3, 3, 2] \<and>
   set (HashIntersect [1, 2, 2, 3] [2, 3, 4]) = {2, 3} \<and>
   HashIntersect [] [2, 3, 4] = [] \<and>
   distinct (HashIntersect [1, 2, 2, 3] [2, 3, 4]) \<and>
   count_list (HashIntersect [2, 3, 4] [1, 2, 2, 3]) 2 = 2"
proof -
  have d: "distinct [2, 3, 4 :: ChunkID]" by simp
  have "HashIntersect [3, 2, 1] [1, 3, 3, 2, 4] = [1, 3, 3, 2]"
    using HashIntersect_spec [of "[3, 2, 1]" "[1, 3, 3, 2, 4]" 2] by simp
  moreover
  have "set (HashIntersect [1, 2, 2, 3] [2, 3, 4]) = set [1, 2, 2, 3 :: ChunkID] \<inter> set [2, 3, 4]"
    using HashIntersect_spec [of "[1, 2, 2, 3]" "[2, 3, 4]" 2] by blast
  moreover have "HashIntersect [] [2, 3, 4] = []"
    using HashIntersect_spec [of "[]" "[2, 3, 4]" 2] by blast
  moreover have "distinct (HashIntersect [1, 2, 2, 3] [2, 3, 4])"
    using HashIntersect_spec [of "[1, 2, 2, 3]" "[2, 3, 4]" 2] d by blast
  moreover have "count_list (HashIntersect [2, 3, 4] [1, 2, 2, 3]) 2 = 2"
    using HashIntersect_spec [of "[2, 3, 4]" "[1, 2, 2, 3]" 2] by simp
  ultimately show ?thesis by auto
qed

text \<open>
  The claim as stated fails: with a repeated element in the argument the result repeats it.
\<close>

theorem HashIntersect_duplicates:
  "HashIntersect [1] [1, 1] = [1, 1] \<and> \<not> distinct (HashIntersect [1] [1, 1])"
  by (simp add: HashIntersect_def)

section \<open>Properties of mustReadFull\<close>

text \<open>
  C10, as amended. With the stream at its end and the end clean (\<open>io.EOF\<close>, no byte
  delivered), \<open>mustReadFull\<close> returns without a panic and leaves the reader, its
  \<open>bytesRead\<close> and the buffer as they were. When the stream still holds some bytes but
  fewer than the buffer asks for, \<open>mustReadFull\<close> panics if the stream then ends cleanly,
  with \<open>io.EOF\<close> itself or with an error that does not wrap \<open>io.EOF\<close>; if it ends with an
  error that wraps \<open>io.EOF\<close> without being it, \<open>mustReadFull\<close> returns without a panic,
  the bytes delivered at the front of the buffer and \<open>bytesRead\<close> as it was.
\<close>

theorem mustReadFull_eof:
  "(remaining (sr r) = [] \<and> fault (sr r) = None \<longrightarrow> mustReadFull r data = Inr (r, data)) \<and>
   (remaining (sr r) \<noteq> [] \<and> length (remaining (sr r)) < length data \<longrightarrow>
      mustReadFull r data =
        (case fault (sr r) of
           None \<Rightarrow> Inl (Panic ''cannot read data'')
         | Some e \<Rightarrow>
             if e \<noteq> EOF \<and> errors_Is_EOF e
             then Inr (r\<lparr>sr := (sr r)\<lparr>remaining := []\<rparr>\<rparr>,
                       remaining (sr r) @ drop (length (remaining (sr r))) data)
             else Inl (Panic ''cannot read data'')))"
  by (auto simp: mustReadFull_def io_ReadFull_def split: option.splits error.splits)

theorem mustReadFull_eof_witness:
  "mustReadFull \<lparr>sr = \<lparr>remaining = [], fault = None\<rparr>, bytesRead = 7\<rparr> [0, 0, 0, 0] =
     Inr (\<lparr>sr = \<lparr>remaining = [], fault = None\<rparr>, bytesRead = 7\<rparr>, [0, 0, 0, 0]) \<and>
   mustReadFull \<lparr>sr = \<lparr>remaining = [1, 2], fault = None\<rparr>, bytesRead = 7\<rparr> [0, 0, 0, 0] =
     Inl (Panic ''cannot read data'') \<and>
   mustReadFull \<lparr>sr = \<lparr>remaining = [1, 2], fault = Some (Failure 5)\<rparr>, bytesRead = 7\<rparr> [0, 0, 0, 0] =
     Inl (Panic ''cannot read data'')"
  using mustReadFull_eof [of "\<lparr>sr = \<lparr>remaining = [], fault = None\<rparr>, bytesRead = 7\<rparr>" "[0, 0, 0, 0]"]
    mustReadFull_eof [of "\<lparr>sr = \<lparr>remaining = [1, 2], fault = None\<rparr>, bytesRead = 7\<rparr>" "[0, 0, 0, 0]"]
    mustReadFull_eof [of "\<lparr>sr = \<lparr>remaining = [1, 2], fault = Some (Failure 5)\<rparr>, bytesRead = 7\<rparr>"
      "[0, 0, 0, 0]"]
  by simp

text \<open>
  The claim as stated fails: a partial read that ends with an error wrapping \<open>io.EOF\<close>
  returns silently. \<open>io.ReadFull\<close> turns only \<open>io.EOF\<close> itself into
  \<open>io.ErrUnexpectedEOF\<close>, and \<open>mustReadFull\<close> tests the error with \<open>errors.Is\<close>.
\<close>

theorem mustReadFull_partial_wrapped_eof:
  "mustReadFull
     \<lparr>sr = \<lparr>remaining = [1, 2], fault = Some (Wrapped ''read'' EOF)\<rparr>, bytesRead = 7\<rparr>
     [9, 9, 9, 9] =
   Inr (\<lparr>sr = \<lparr>remaining = [], fault = Some (Wrapped ''read'' EOF)\<rparr>, bytesRead = 7\<rparr>,
        [1, 2, 9, 9])"
  by (simp add: mustReadFull_def io_ReadFull_def)

section \<open>Properties of memPart.mustFlush on the index directory\<close>

text \<open>
  C7, as amended. When the last element of the target path is \<open>idx\<close>, \<open>mustFlush\<close>
  first creates the directory at that path, with a panic if something exists there
  already, and then returns: no data file and no metadata record is written, the path
  is not synced and no cache hint is applied.
\<close>

theorem mustFlush_idx:
  "filepath_Base path = elementIndexFilename \<Longrightarrow>
   mustFlush fs path mp fa =
     (if fs_lookup fs path \<noteq> None then Inl (Panic ''directory is exist'')
      else Inr (fs\<lparr>nodes := nodes fs @ [(path, Dir)]\<rparr>, fa))"
  by (simp add: mustFlush_def MkdirPanicIfExist_def)

theorem mustFlush_idx_witness:
  "filepath_Base ''seg/000000000000001a/idx'' = elementIndexFilename \<and>
   mustFlush \<lparr>nodes = [(''seg'', Dir), (''seg/000000000000001a'', Dir)], synced = []\<rparr>
       ''seg/000000000000001a/idx''
       \<lparr>mp_tagFamilyMetadata = [(''t'', [4])], mp_tagFamilies = [(''t'', [5])], mp_meta = [1],
          mp_primary = [2], mp_timestamps = [3],
          mp_partMetadata =
            \<lparr>ID = 26, BlocksCount = 1, TotalCount = 1, MinTimestamp = 5, MaxTimestamp = 5\<rparr>\<rparr>
       (fadvis_init Map.empty) =
     Inr (\<lparr>nodes = [(''seg'', Dir), (''seg/000000000000001a'', Dir),
                     (''seg/000000000000001a/idx'', Dir)], synced = []\<rparr>,
          fadvis_init Map.empty)"
proof -
  have b: "filepath_Base ''seg/000000000000001a/idx'' = elementIndexFilename"
    by (simp add: filepath_Base_def elementIndexFilename_def)
  show ?thesis
    using mustFlush_idx [OF b,
        of "\<lparr>nodes = [(''seg'', Dir), (''seg/000000000000001a'', Dir)], synced = []\<rparr>"]
    by (simp add: b fs_lookup_def)
qed

text \<open>
  The claim as stated fails: the directory is created on disk for that path, and a
  second flush to the same path panics instead of being skipped.
\<close>

theorem mustFlush_idx_creates_directory:
  "fs_lookup \<lparr>nodes = [(''seg'', Dir)], synced = []\<rparr> ''seg/idx'' = None \<and>
   mustFlush \<lparr>nodes = [(''seg'', Dir)], synced = []\<rparr> ''seg/idx''
       \<lparr>mp_tagFamilyMetadata = [], mp_tagFamilies = [], mp_meta = [1], mp_primary = [2],
          mp_timestamps = [3],
          mp_partMetadata =
            \<lparr>ID = 1, BlocksCount = 1, TotalCount = 1, MinTimestamp = 5, MaxTimestamp = 5\<rparr>\<rparr>
       (fadvis_init Map.empty) =
     Inr (\<lparr>nodes = [(''seg'', Dir), (''seg/idx'', Dir)], synced = []\<rparr>, fadvis_init Map.empty) \<and>
   fs_lookup \<lparr>nodes = [(''seg'', Dir), (''seg/idx'', Dir)], synced = []\<rparr> ''seg/idx'' = Some Dir \<and>
   mustFlush \<lparr>nodes = [(''seg'', Dir), (''seg/idx'', Dir)], synced = []\<rparr> ''seg/idx''
       \<lparr>mp_tagFamilyMetadata = [], mp_tagFamilies = [], mp_meta = [1], mp_primary = [2],
          mp_timestamps = [3],
          mp_partMetadata =
            \<lparr>ID = 1, BlocksCount = 1, TotalCount = 1, MinTimestamp = 5, MaxTimestamp = 5\<rparr>\<rparr>
       (fadvis_init Map.empty) =
     Inl (Panic ''directory is exist'')"
  by (simp add: mustFlush_def MkdirPanicIfExist_def fs_lookup_def filepath_Base_def
      elementIndexFilename_def)

section \<open>Properties of the reference count of partWrapper\<close>

lemma sint_small: "d < 2 ^ 31 \<Longrightarrow> sint (of_nat d :: 32 word) = int d"
proof -
  assume d: "d < 2 ^ 31"
  have "sint (word_of_int (int d) :: 32 word) = signed_take_bit (LENGTH(32) - 1) (int d)"
    by (rule sint_sbintrunc')
  also have "\<dots> = int d"
    using d by (intro signed_take_bit_int_eq_self) simp_all
  finally show ?thesis by simp
qed

lemma run_balanced:
  "balanced d cs \<Longrightarrow> outstanding d cs < 2 ^ 31 \<Longrightarrow> pw_ref pw = of_nat (Suc d) \<Longrightarrow>
   run_calls cs (pw, effects) = Inr (pw\<lparr>pw_ref := 1\<rparr>, effects)"
proof (induction d cs arbitrary: pw rule: balanced.induct)
  case (1 d)
  then show ?case by simp
next
  case (2 d cs)
  have "pw_ref (incRef pw) = of_nat (Suc (Suc d))"
    using "2.prems"(3) by (simp add: incRef_def)
  moreover have "outstanding (Suc d) cs < 2 ^ 31"
    using "2.prems"(2) by simp
  ultimately have "run_calls cs (incRef pw, effects) = Inr ((incRef pw)\<lparr>pw_ref := 1\<rparr>, effects)"
    using "2.IH" "2.prems"(1) by simp
  then show ?case by (simp add: incRef_def)
next
  case (3 d cs)
  from "3.prems"(1) have d: "0 < d" and b: "balanced (d - 1) cs" by simp_all
  have dlt: "d < 2 ^ 31"
    using "3.prems"(2) by simp
  have n: "pw_ref pw - 1 = of_nat d"
    using "3.prems"(3) by simp
  have pos: "0 < sint (pw_ref pw - 1)"
    using d dlt by (simp add: n sint_small)
  have dec: "decRef pw effects = Inr (pw\<lparr>pw_ref := of_nat d\<rparr>, effects)"
    using pos by (simp add: decRef_def Let_def n)
  have "pw_ref (pw\<lparr>pw_ref := of_nat d\<rparr>) = of_nat (Suc (d - 1))"
    using d by simp
  moreover have "outstanding (d - 1) cs < 2 ^ 31"
    using "3.prems"(2) by simp
  ultimately have "run_calls cs (pw\<lparr>pw_ref := of_nat d\<rparr>, effects) =
      Inr (pw\<lparr>pw_ref := of_nat d\<rparr>\<lparr>pw_ref := 1\<rparr>, effects)"
    using "3.IH" [of "pw\<lparr>pw_ref := of_nat d\<rparr>"] d b by simp
  then show ?case by (simp add: dec)
qed


lemma decRef_last:
  assumes "pw_ref pw = 1"
  shows "decRef pw effects =
     (case pw_mp pw of
        Some m \<Rightarrow> Inr (pw\<lparr>pw_mp := None, pw_p := None, pw_ref := 0\<rparr>, effects @ [ReleaseMemPart m])
      | None \<Rightarrow>
          (case pw_p pw of
             None \<Rightarrow> Inl (Panic ''nil pointer dereference'')
           | Some p \<Rightarrow>
               Inr (pw\<lparr>pw_ref := 0\<rparr>,
                    effects @ [ClosePart p]
                      @ (if pw_removable pw \<and> p_fileSystem p then [ScheduleRMAll (p_path p)] else []))))"
  using assms by (simp add: decRef_def Let_def split: option.splits)

lemma run_calls_append:
  "run_calls (cs @ ds) st = (case run_calls cs st of Inl x \<Rightarrow> Inl x | Inr st' \<Rightarrow> run_calls ds st')"
proof (induction cs st rule: run_calls.induct)
  case (1 st)
  then show ?case by simp
next
  case (2 cs pw effects)
  then show ?case by simp
next
  case (3 cs pw effects)
  then show ?case by (cases "decRef pw effects") auto
qed

text \<open>
  C4, as amended. Take a wrapper whose count is 1 (as \<open>newPartWrapper\<close> leaves it) and a
  balanced sequence of \<open>incRef\<close> and \<open>decRef\<close> calls during which at most \<open>2^31 - 1\<close>
  acquired references are outstanding at any time. The sequence leaves the wrapper as it
  was, count included, and causes no effect. The \<open>decRef\<close> that follows, which releases
  the creation reference, takes the count to 0 and runs the cleanup once: for a wrapper
  with a memory part, \<open>releaseMemPart\<close> on it; for one with only a part, \<open>close\<close> on the
  part and, if the wrapper is removable and the part has a file system, the scheduling
  of \<open>MustRMAll\<close> on the part's path. (A wrapper with neither panics in the cleanup.)
\<close>

theorem refcount_balanced:
  assumes "balanced 0 cs" and "outstanding 0 cs < 2 ^ 31"
    and "pw_ref pw = 1"
  shows "run_calls cs (pw, effects) = Inr (pw, effects) \<and>
     run_calls (cs @ [DecRef]) (pw, effects) =
       (case pw_mp pw of
          Some m \<Rightarrow>
            Inr (pw\<lparr>pw_mp := None, pw_p := None, pw_ref := 0\<rparr>, effects @ [ReleaseMemPart m])
        | None \<Rightarrow>
            (case pw_p pw of
               None \<Rightarrow> Inl (Panic ''nil pointer dereference'')
             | Some p \<Rightarrow>
                 Inr (pw\<lparr>pw_ref := 0\<rparr>,
                      effects @ [ClosePart p]
                        @ (if pw_removable pw \<and> p_fileSystem p
                           then [ScheduleRMAll (p_path p)] else []))))"
proof -
  have "run_calls cs (pw, effects) = Inr (pw\<lparr>pw_ref := 1\<rparr>, effects)"
    using assms by (intro run_balanced [of 0]) simp_all
  moreover have "pw\<lparr>pw_ref := 1\<rparr> = pw"
    using assms(3) by simp
  ultimately have r: "run_calls cs (pw, effects) = Inr (pw, effects)"
    by simp
  show ?thesis
    by (simp add: r run_calls_append decRef_last [OF assms(3)] split: option.splits)
qed


lemma run_incs:
  "run_calls (replicate k IncRef) (pw, effects) = Inr (pw\<lparr>pw_ref := pw_ref pw + of_nat k\<rparr>, effects)"
proof (induction k arbitrary: pw)
  case 0
  then show ?case by simp
next
  case (Suc k)
  show ?case
    by (simp add: Suc.IH incRef_def add.assoc add.commute)
qed

lemma run_decs:
  "pw_ref pw = of_nat m \<Longrightarrow> k < m \<Longrightarrow> m \<le> 2 ^ 31 \<Longrightarrow>
   run_calls (replicate k DecRef) (pw, effects) = Inr (pw\<lparr>pw_ref := of_nat (m - k)\<rparr>, effects)"
proof (induction k arbitrary: pw m)
  case 0
  then show ?case by simp
next
  case (Suc k)
  have n: "pw_ref pw - 1 = of_nat (m - 1)"
    using Suc.prems by (simp add: of_nat_diff)
  have m1: "0 < m - 1" "m - 1 < 2 ^ 31"
    using Suc.prems by simp_all
  have "sint (of_nat (m - 1) :: 32 word) = int (m - 1)"
    using m1(2) by (rule sint_small)
  then have pos: "0 < sint (of_nat (m - 1) :: 32 word)"
    using m1(1) by simp
  have dec: "decRef pw effects = Inr (pw\<lparr>pw_ref := of_nat (m - 1)\<rparr>, effects)"
    unfolding decRef_def Let_def n using pos by simp
  have "run_calls (replicate k DecRef) (pw\<lparr>pw_ref := of_nat (m - 1)\<rparr>, effects) =
      Inr (pw\<lparr>pw_ref := of_nat (m - 1)\<rparr>\<lparr>pw_ref := of_nat (m - 1 - k)\<rparr>, effects)"
    using Suc.prems by (intro Suc.IH) simp_all
  then show ?case
    by (simp add: dec)
qed

lemma balanced_nest: "balanced d (replicate k IncRef @ replicate (d + k) DecRef)"
proof (induction k arbitrary: d)
  case 0
  show ?case by (induction d) simp_all
next
  case (Suc k)
  show ?case using Suc [of "Suc d"] by simp
qed


lemma overflow_run:
  assumes k: "k = 2 ^ 31"
    and pw: "pw_mp pw = None" "pw_p pw = Some p" "pw_ref pw = 1" "\<not> pw_removable pw"
  shows "run_calls (replicate k IncRef @ replicate k DecRef @ [DecRef]) (pw, []) =
           Inr (pw\<lparr>pw_ref := 0\<rparr>, [ClosePart p, ClosePart p])"
proof -
  let ?pw1 = "pw\<lparr>pw_ref := pw_ref pw + of_nat k\<rparr>"
  let ?pw2 = "pw\<lparr>pw_ref := of_nat k\<rparr>"
  let ?pw3 = "pw\<lparr>pw_ref := 1\<rparr>"
  have s1: "run_calls (replicate k IncRef) (pw, []) = Inr (?pw1, [])"
    by (rule run_incs)
  have neg: "sint (of_nat k :: 32 word) = - (2 ^ 31)"
    unfolding k by simp
  have n: "pw_ref ?pw1 - 1 = of_nat k"
    using pw(3) by simp
  have s2: "decRef ?pw1 [] = Inr (?pw2, [ClosePart p])"
    unfolding decRef_def Let_def n using neg pw by simp
  have "run_calls (replicate (k - 1) DecRef) (?pw2, [ClosePart p]) =
      Inr (?pw2\<lparr>pw_ref := of_nat (k - (k - 1))\<rparr>, [ClosePart p])"
    by (rule run_decs) (simp_all add: k)
  moreover have "k - (k - 1) = 1" by (simp add: k)
  ultimately have s3: "run_calls (replicate (k - 1) DecRef) (?pw2, [ClosePart p]) =
      Inr (?pw3, [ClosePart p])"
    by simp
  have s4: "decRef ?pw3 [ClosePart p] = Inr (pw\<lparr>pw_ref := 0\<rparr>, [ClosePart p, ClosePart p])"
    using pw by (simp add: decRef_last)
  have "0 < k" by (simp add: k)
  then have "k = Suc (k - 1)" by simp
  then have r: "replicate k DecRef = DecRef # replicate (k - 1) DecRef"
    by (metis replicate_Suc)
  show ?thesis
    unfolding r
    by (simp only: run_calls_append s1 append_Cons run_calls.simps s2 s3 s4 sum.case)
qed

text \<open>
  The claim as stated fails on the int32 counter: after \<open>2^31\<close> calls of \<open>incRef\<close> the
  count is negative, so the first of the \<open>decRef\<close> calls that balance them runs the
  cleanup with \<open>2^31 - 1\<close> references still acquired, and the release of the creation
  reference runs it again.
\<close>

theorem refcount_overflow:
  "let p0 = \<lparr>p_primary = FileReader ''seg/01/primary.bin'',
              p_timestamps = FileReader ''seg/01/timestamps.bin'', p_fileSystem = True,
              p_tagFamilyMetadata = Map.empty, p_tagFamilies = Map.empty, p_path = ''seg/01'',
              p_primaryBlockMetadata = [],
              p_partMetadata = \<lparr>ID = 1, BlocksCount = 0, TotalCount = 0, MinTimestamp = 0,
                                 MaxTimestamp = 0\<rparr>\<rparr>
   in balanced 0 (replicate 2147483648 IncRef @ replicate 2147483648 DecRef) \<and>
      run_calls (replicate 2147483648 IncRef @ replicate 2147483648 DecRef @ [DecRef])
          (newPartWrapper None (Some p0), []) =
        Inr ((newPartWrapper None (Some p0))\<lparr>pw_ref := 0\<rparr>, [ClosePart p0, ClosePart p0])"
proof -
  have b: "balanced 0 (replicate 2147483648 IncRef @ replicate 2147483648 DecRef)"
    using balanced_nest [of 0 2147483648] by simp
  have k: "(2147483648 :: nat) = 2 ^ 31" by simp
  show ?thesis
    unfolding Let_def
    by (intro conjI b overflow_run [OF k]) (simp_all add: newPartWrapper_def)
qed

theorem refcount_balanced_witness:
  "run_calls [IncRef, IncRef, DecRef, IncRef, DecRef, DecRef]
     (newPartWrapper None
        (Some \<lparr>p_primary = FileReader ''seg/01/primary.bin'',
              p_timestamps = FileReader ''seg/01/timestamps.bin'', p_fileSystem = True,
              p_tagFamilyMetadata = Map.empty, p_tagFamilies = Map.empty, p_path = ''seg/01'',
              p_primaryBlockMetadata = [],
              p_partMetadata = \<lparr>ID = 1, BlocksCount = 0, TotalCount = 0, MinTimestamp = 0,
                                 MaxTimestamp = 0\<rparr>\<rparr>)
        \<lparr>pw_removable := True\<rparr>, []) =
     Inr (newPartWrapper None
        (Some \<lparr>p_primary = FileReader ''seg/01/primary.bin'',
              p_timestamps = FileReader ''seg/01/timestamps.bin'', p_fileSystem = True,
              p_tagFamilyMetadata = Map.empty, p_tagFamilies = Map.empty, p_path = ''seg/01'',
              p_primaryBlockMetadata = [],
              p_partMetadata = \<lparr>ID = 1, BlocksCount = 0, TotalCount = 0, MinTimestamp = 0,
                                 MaxTimestamp = 0\<rparr>\<rparr>)
        \<lparr>pw_removable := True\<rparr>, []) \<and>
   run_calls ([IncRef, IncRef, DecRef, IncRef, DecRef, DecRef] @ [DecRef])
     (newPartWrapper None
        (Some \<lparr>p_primary = FileReader ''seg/01/primary.bin'',
              p_timestamps = FileReader ''seg/01/timestamps.bin'', p_fileSystem = True,
              p_tagFamilyMetadata = Map.empty, p_tagFamilies = Map.empty, p_path = ''seg/01'',
              p_primaryBlockMetadata = [],
              p_partMetadata = \<lparr>ID = 1, BlocksCount = 0, TotalCount = 0, MinTimestamp = 0,
                                 MaxTimestamp = 0\<rparr>\<rparr>)
        \<lparr>pw_removable := True\<rparr>, []) =
     Inr (newPartWrapper None
        (Some \<lparr>p_primary = FileReader ''seg/01/primary.bin'',
              p_timestamps = FileReader ''seg/01/timestamps.bin'', p_fileSystem = True,
              p_tagFamilyMetadata = Map.empty, p_tagFamilies = Map.empty, p_path = ''seg/01'',
              p_primaryBlockMetadata = [],
              p_partMetadata = \<lparr>ID = 1, BlocksCount = 0, TotalCount = 0, MinTimestamp = 0,
                                 MaxTimestamp = 0\<rparr>\<rparr>)
        \<lparr>pw_removable := True, pw_ref := 0\<rparr>,
        [ClosePart \<lparr>p_primary = FileReader ''seg/01/primary.bin'',
              p_timestamps = FileReader ''seg/01/timestamps.bin'', p_fileSystem = True,
              p_tagFamilyMetadata = Map.empty, p_tagFamilies = Map.empty, p_path = ''seg/01'',
              p_primaryBlockMetadata = [],
              p_partMetadata = \<lparr>ID = 1, BlocksCount = 0, TotalCount = 0, MinTimestamp = 0,
                                 MaxTimestamp = 0\<rparr>\<rparr>,
         ScheduleRMAll ''seg/01''])"
proof -
  let ?cs = "[IncRef, IncRef, DecRef, IncRef, DecRef, DecRef]"
  have b: "balanced 0 ?cs" by simp
  have o: "outstanding 0 ?cs < 2 ^ 31" by simp
  show ?thesis
    using refcount_balanced [OF b o, where effects = "[]"]
    by (simp add: newPartWrapper_def)
qed

section \<open>Properties of mustInitFromElements\<close>


definition row_size :: "('tv \<Rightarrow> nat) \<Rightarrow> 'tv element \<Rightarrow> nat" where
  "row_size tv_size e = uncompressedElementSizeBytes tv_size 0 [e]"

lemma row_size_nth: "uncompressedElementSizeBytes tv_size i es = row_size tv_size (es ! i)"
  by (simp add: row_size_def uncompressedElementSizeBytes_def)






lemma block_size_rows: "block_size tv_size rows = sum_list (map (row_size tv_size) rows)"
proof -
  have "map (\<lambda>i. uncompressedElementSizeBytes tv_size i rows) [0..<length rows] =
        map (row_size tv_size) (map (\<lambda>i. rows ! i) [0..<length rows])"
    by (simp add: row_size_nth)
  then show ?thesis
    by (simp add: block_size_def map_nth)
qed

lemma block_size_simps [simp]:
  "block_size tv_size [] = 0"
  "block_size tv_size (xs @ ys) = block_size tv_size xs + block_size tv_size ys"
  "block_size tv_size (x # xs) = row_size tv_size x + block_size tv_size xs"
  by (simp_all add: block_size_rows)
















text \<open>
  C2. A batch with a row of series 0 and a row of series 5: the guard \<open>sidPrev == 0\<close>
  takes the series 0 of the first row for "no series yet", so no block is closed when the
  series changes, and both rows are written as one block of series 5.
\<close>

theorem series_zero_mixed_block:
  "mustInitFromElements (\<lambda>v::nat. v) 2097152
      [\<lparr>e_seriesID = 5, e_timestamp = 2, e_elementID = 2, e_tagFamilies = []\<rparr>,
       \<lparr>e_seriesID = 0, e_timestamp = 1, e_elementID = 1, e_tagFamilies = []\<rparr>] =
     [(5, [\<lparr>e_seriesID = 0, e_timestamp = 1, e_elementID = 1, e_tagFamilies = []\<rparr>,
           \<lparr>e_seriesID = 5, e_timestamp = 2, e_elementID = 2, e_tagFamilies = []\<rparr>])]"
  by (simp add: uncompressedElementSizeBytes_def mustInitFromElements_def
      sort_elements_def init_loop_def init_step_def Let_def MustWriteElements_def slice_def)

end
